theory Spec2Isabelle
  imports Main
begin

section \<open>Values exchanged with the IAM API\<close>

text \<open>
  The provisioning routines of \<^verbatim>\<open>data_mesh_util/lib/utils.py\<close> build policy documents as
  Python dictionaries and read the trust document of a role as the dictionary that the
  client library decodes from the service's answer. Such a value is a JSON tree. A
  dictionary keeps its keys in insertion order, so an object is an association list.
\<close>

datatype json =
    JNull
  | JBool bool
  | JNum int
  | JStr string
  | JArr "json list"
  | JObj "(string \<times> json) list"

text \<open>
  The exceptions the code can meet. The first two are the service exceptions the source
  names in its \<^verbatim>\<open>except\<close> clauses; the next four are raised by the Python
  interpreter on a dictionary or list access that does not fit the value;
  \<open>FileNotFoundError\<close> comes from opening a template file; \<open>Exception\<close> is the
  plain exception the controller raises with a message; \<open>ClientError\<close> stands for every
  other failure of a remote call (network, permissions, malformed input).
\<close>

datatype error =
    EntityAlreadyExistsException
  | NoSuchEntityException
  | KeyError string
  | AttributeError
  | TypeError
  | IndexError
  | FileNotFoundError
  | Exception string
  | ClientError string

text \<open>
  A policy document travels to the service as a string: either the text rendered from a
  template, or \<^verbatim>\<open>json.dumps(d)\<close> of a dictionary \<open>d\<close>. The characters of the
  serialisation play no role in the routines, so \<open>Dumps d\<close> stands for the string
  \<^verbatim>\<open>json.dumps(d)\<close>.
\<close>

datatype document = Rendered string | Dumps json

type_synonym tags = "(string \<times> string) list"

subsection \<open>Dictionary and list accesses of Python\<close>

text \<open>\<^verbatim>\<open>d[k] = v\<close> on a dictionary: an existing key keeps its place, a new key goes last.\<close>

fun dict_setitem :: "(string \<times> json) list \<Rightarrow> string \<Rightarrow> json \<Rightarrow> (string \<times> json) list" where
  "dict_setitem [] k v = [(k, v)]"
| "dict_setitem ((k', v') # kvs) k v =
     (if k' = k then (k, v) # kvs else (k', v') # dict_setitem kvs k v)"






section \<open>The assume-role document\<close>

text \<open>
  Lines 64 to 66 of \<^verbatim>\<open>create_assume_role_doc\<close>: the loop over the items of
  \<open>additional_principals\<close>. Each round reads \<^verbatim>\<open>statement['Principal']\<close>, a
  \<open>KeyError\<close> when the statement has no such key, and stores the item in it.
\<close>

fun merge_additional ::
  "(string \<times> json) list \<Rightarrow> (string \<times> json) list \<Rightarrow> error + (string \<times> json) list" where
  "merge_additional [] statement = Inr statement"
| "merge_additional ((k, v) # items) statement =
     (case map_of statement ''Principal'' of
        None \<Rightarrow> Inl (KeyError ''Principal'')
      | Some (JObj entries) \<Rightarrow>
          merge_additional items
            (dict_setitem statement ''Principal'' (JObj (dict_setitem entries k v)))
      | Some _ \<Rightarrow> Inl TypeError)"

definition create_assume_role_doc ::
  "string list option \<Rightarrow> string option \<Rightarrow> (string \<times> json) list option \<Rightarrow> error + json" where
  "create_assume_role_doc aws_principals resource additional_principals =
     (let statement0 = [(''Effect'', JStr ''Allow''), (''Action'', JStr ''sts:AssumeRole'')];
          statement1 =
            (case aws_principals of
               None \<Rightarrow> statement0
             | Some ps \<Rightarrow>
                 dict_setitem statement0 ''Principal'' (JObj [(''AWS'', JArr (map JStr ps))]))
      in case (case additional_principals of
                 None \<Rightarrow> Inr statement1
               | Some items \<Rightarrow> merge_additional items statement1) of
           Inl e \<Rightarrow> Inl e
         | Inr statement2 \<Rightarrow>
             Inr (JObj [(''Version'', JStr ''2012-10-17''),
                        (''Statement'',
                         JArr [JObj (case resource of
                                       None \<Rightarrow> statement2
                                     | Some r \<Rightarrow> dict_setitem statement2 ''Resource'' (JStr r))])]))"

section \<open>The remote API and the record of calls\<close>

text \<open>
  What \<^verbatim>\<open>get_role\<close> and \<^verbatim>\<open>create_role\<close> answer under the key \<^verbatim>\<open>Role\<close>: the
  two entries the code reads.
\<close>

record role =
  Arn :: string
  AssumeRolePolicyDocument :: json

text \<open>What \<^verbatim>\<open>get_caller_identity\<close> and \<^verbatim>\<open>assume_role\<close> answer.\<close>

record identity =
  UserId :: string
  Account :: string

record credentials =
  AccessKeyId :: string
  SecretAccessKey :: string
  SessionToken :: string

text \<open>
  The clients are parameters of the source (\<^verbatim>\<open>iam_client\<close>, \<^verbatim>\<open>self._sts_client\<close>), and
  so they are here: a client is the collection of its operations, each a function of the
  remote state \<open>'s\<close> that answers with a value or raises, and leaves a new remote state.
  The arguments are in the order the source writes the keywords:
  \<^item> \<open>get_role RoleName\<close>
  \<^item> \<open>create_policy PolicyName Path PolicyDocument Description Tags\<close>, answering the ARN
  \<^item> \<open>create_user Path UserName Tags\<close>
  \<^item> \<open>create_group Path GroupName\<close>
  \<^item> \<open>add_user_to_group GroupName UserName\<close>
  \<^item> \<open>create_role Path RoleName AssumeRolePolicyDocument Description Tags\<close>
  \<^item> \<open>attach_role_policy RoleName PolicyArn\<close>
  \<^item> \<open>attach_group_policy GroupName PolicyArn\<close>
  \<^item> \<open>update_assume_role_policy RoleName PolicyDocument\<close>
\<close>

record 's iam_client =
  get_role :: "string \<Rightarrow> 's \<Rightarrow> (error + role) \<times> 's"
  create_policy ::
    "string \<Rightarrow> string \<Rightarrow> document \<Rightarrow> string \<Rightarrow> tags \<Rightarrow> 's \<Rightarrow> (error + string) \<times> 's"
  create_user :: "string \<Rightarrow> string \<Rightarrow> tags \<Rightarrow> 's \<Rightarrow> (error + unit) \<times> 's"
  create_group :: "string \<Rightarrow> string \<Rightarrow> 's \<Rightarrow> (error + unit) \<times> 's"
  add_user_to_group :: "string \<Rightarrow> string \<Rightarrow> 's \<Rightarrow> (error + unit) \<times> 's"
  create_role ::
    "string \<Rightarrow> string \<Rightarrow> document \<Rightarrow> string \<Rightarrow> tags \<Rightarrow> 's \<Rightarrow> (error + role) \<times> 's"
  attach_role_policy :: "string \<Rightarrow> string \<Rightarrow> 's \<Rightarrow> (error + unit) \<times> 's"
  attach_group_policy :: "string \<Rightarrow> string \<Rightarrow> 's \<Rightarrow> (error + unit) \<times> 's"
  update_assume_role_policy :: "string \<Rightarrow> document \<Rightarrow> 's \<Rightarrow> (error + unit) \<times> 's"

text \<open>Every remote call the code makes is recorded, with its arguments, in the order made.\<close>

datatype api_call =
    GetRole string
  | CreatePolicy string string document string tags
  | CreateUser string string tags
  | CreateGroup string string
  | AddUserToGroup string string
  | CreateRole string string document string tags
  | AttachRolePolicy string string
  | AttachGroupPolicy string string
  | UpdateAssumeRolePolicy string document
  | GetCallerIdentity
  | AssumeRole string string
  | NewSubscriberTracker credentials "string option" string

record 's world =
  cloud :: 's
  calls :: "api_call list"

type_synonym ('s, 'a) action = "'s world \<Rightarrow> (error + 'a) \<times> 's world"

definition invoke :: "api_call \<Rightarrow> ('s \<Rightarrow> (error + 'a) \<times> 's) \<Rightarrow> ('s, 'a) action" where
  "invoke ev f w =
     (case f (cloud w) of (r, s') \<Rightarrow> (r, \<lparr>cloud = s', calls = calls w @ [ev]\<rparr>))"

text \<open>Sequencing: an exception ends the routine; \<open>return\<close> is a step that calls nothing.\<close>

definition then_do :: "('s, 'a) action \<Rightarrow> ('a \<Rightarrow> ('s, 'b) action) \<Rightarrow> ('s, 'b) action" where
  "then_do m f w = (case m w of (Inl e, w') \<Rightarrow> (Inl e, w') | (Inr a, w') \<Rightarrow> f a w')"

definition return :: "'a \<Rightarrow> ('s, 'a) action" where
  "return a w = (Inr a, w)"

text \<open>
  \<^verbatim>\<open>try: body  except iam_client.exceptions.EntityAlreadyExistsException: handler\<close>.
  Any other exception of the body goes on to the caller.
\<close>

definition except_already_exists :: "('s, 'a) action \<Rightarrow> ('s, 'a) action \<Rightarrow> ('s, 'a) action" where
  "except_already_exists body handler w =
     (case body w of
        (Inl e, w') \<Rightarrow> if e = EntityAlreadyExistsException then handler w' else (Inl e, w')
      | (Inr a, w') \<Rightarrow> (Inr a, w'))"

definition iam_get_role :: "'s iam_client \<Rightarrow> string \<Rightarrow> ('s, role) action" where
  "iam_get_role c RoleName = invoke (GetRole RoleName) (get_role c RoleName)"

definition iam_create_policy ::
  "'s iam_client \<Rightarrow> string \<Rightarrow> string \<Rightarrow> document \<Rightarrow> string \<Rightarrow> tags \<Rightarrow> ('s, string) action" where
  "iam_create_policy c PolicyName Path PolicyDocument Description Tags =
     invoke (CreatePolicy PolicyName Path PolicyDocument Description Tags)
       (create_policy c PolicyName Path PolicyDocument Description Tags)"

definition iam_create_user :: "'s iam_client \<Rightarrow> string \<Rightarrow> string \<Rightarrow> tags \<Rightarrow> ('s, unit) action" where
  "iam_create_user c Path UserName Tags =
     invoke (CreateUser Path UserName Tags) (create_user c Path UserName Tags)"

definition iam_create_group :: "'s iam_client \<Rightarrow> string \<Rightarrow> string \<Rightarrow> ('s, unit) action" where
  "iam_create_group c Path GroupName =
     invoke (CreateGroup Path GroupName) (create_group c Path GroupName)"

definition iam_add_user_to_group :: "'s iam_client \<Rightarrow> string \<Rightarrow> string \<Rightarrow> ('s, unit) action" where
  "iam_add_user_to_group c GroupName UserName =
     invoke (AddUserToGroup GroupName UserName) (add_user_to_group c GroupName UserName)"

definition iam_create_role ::
  "'s iam_client \<Rightarrow> string \<Rightarrow> string \<Rightarrow> document \<Rightarrow> string \<Rightarrow> tags \<Rightarrow> ('s, role) action" where
  "iam_create_role c Path RoleName doc Description Tags =
     invoke (CreateRole Path RoleName doc Description Tags)
       (create_role c Path RoleName doc Description Tags)"

definition iam_attach_role_policy :: "'s iam_client \<Rightarrow> string \<Rightarrow> string \<Rightarrow> ('s, unit) action" where
  "iam_attach_role_policy c RoleName PolicyArn =
     invoke (AttachRolePolicy RoleName PolicyArn) (attach_role_policy c RoleName PolicyArn)"

definition iam_attach_group_policy :: "'s iam_client \<Rightarrow> string \<Rightarrow> string \<Rightarrow> ('s, unit) action" where
  "iam_attach_group_policy c GroupName PolicyArn =
     invoke (AttachGroupPolicy GroupName PolicyArn) (attach_group_policy c GroupName PolicyArn)"


section \<open>The provisioning routines of utils.py\<close>

text \<open>
  The module \<^verbatim>\<open>constants\<close> is imported by the source and is not part of it. Its names
  are taken as a parameter, so every result holds for any value of them.
\<close>

record constants =
  DATA_MESH_IAM_PATH :: string
  DEFAULT_TAGS :: tags
  CONSUMER_POLICY_NAME :: string
  DATA_MESH_CONSUMER_ROLENAME :: string
  DATA_MESH_ADMIN_CONSUMER_ROLENAME :: string

text \<open>
  What the routines read of the machine they run on: the template files of the
  \<^verbatim>\<open>resource\<close> directory, by file name, and the rendering of a template against a
  configuration (\<^verbatim>\<open>pystache.Renderer().render\<close>).
\<close>

record host =
  resource_files :: "string \<Rightarrow> string option"
  render :: "string \<Rightarrow> (string \<times> string) list option \<Rightarrow> string"

definition validate_correct_account :: "'s iam_client \<Rightarrow> string \<Rightarrow> ('s, bool) action" where
  "validate_correct_account c role_must_exist w =
     (case iam_get_role c role_must_exist w of
        (Inr r, w') \<Rightarrow> (Inr True, w')
      | (Inl e, w') \<Rightarrow> if e = NoSuchEntityException then (Inr False, w') else (Inl e, w'))"

definition generate_policy ::
  "host \<Rightarrow> string \<Rightarrow> (string \<times> string) list option \<Rightarrow> error + string" where
  "generate_policy h template_file config =
     (case resource_files h template_file of
        None \<Rightarrow> Inl FileNotFoundError
      | Some template \<Rightarrow> Inr (render h template config))"




text \<open>The ARN template \<^verbatim>\<open>"arn:aws:iam::%s:<type>%s%s" % (account_id, path, name)\<close>.\<close>

definition arn_of :: "string \<Rightarrow> string \<Rightarrow> string \<Rightarrow> string \<Rightarrow> string" where
  "arn_of account_id type path name = ''arn:aws:iam::'' @ account_id @ '':'' @ type @ path @ name"

definition create_assume_role_policy ::
  "constants \<Rightarrow> 's iam_client \<Rightarrow> string \<Rightarrow> string \<Rightarrow> string \<Rightarrow> ('s, string) action" where
  "create_assume_role_policy K c account_id policy_name role_arn =
     except_already_exists
       (case create_assume_role_doc None (Some role_arn) None of
          Inl e \<Rightarrow> Pair (Inl e)
        | Inr doc \<Rightarrow>
            iam_create_policy c policy_name (DATA_MESH_IAM_PATH K) (Dumps doc)
              (''Policy allowing the grantee the ability to assume Role '' @ role_arn)
              (DEFAULT_TAGS K))
       (return (arn_of account_id ''policy'' (DATA_MESH_IAM_PATH K) policy_name))"

subsection \<open>configure_iam\<close>

text \<open>
  \<^verbatim>\<open>configure_iam\<close> is a sequence of guarded steps. Each step of the source is a
  definition here, named after what it computes, and \<open>configure_iam\<close> below runs them in
  the order of the source.

  Lines 77 to 91: the policy. The template is rendered inside the \<^verbatim>\<open>try\<close>.
\<close>

definition configure_iam_policy ::
  "constants \<Rightarrow> host \<Rightarrow> 's iam_client \<Rightarrow> string \<Rightarrow> string \<Rightarrow> string \<Rightarrow> string \<Rightarrow>
   (string \<times> string) list option \<Rightarrow> ('s, string) action" where
  "configure_iam_policy K h c policy_name policy_desc policy_template account_id config =
     except_already_exists
       (case generate_policy h policy_template config of
          Inl e \<Rightarrow> Pair (Inl e)
        | Inr policy_doc \<Rightarrow>
            iam_create_policy c policy_name (DATA_MESH_IAM_PATH K) (Rendered policy_doc)
              policy_desc (DEFAULT_TAGS K))
       (return (arn_of account_id ''policy'' (DATA_MESH_IAM_PATH K) policy_name))"

text \<open>
  Lines 93 to 106: the user. The pause of half a second after a creation has no effect
  on the values and the calls. The ARN is formatted after the \<^verbatim>\<open>try\<close>, on both paths.
\<close>

definition configure_iam_user ::
  "constants \<Rightarrow> 's iam_client \<Rightarrow> string \<Rightarrow> string \<Rightarrow> ('s, string) action" where
  "configure_iam_user K c role_name account_id =
     then_do
       (except_already_exists
          (iam_create_user c (DATA_MESH_IAM_PATH K) role_name (DEFAULT_TAGS K))
          (return ()))
       (\<lambda>_. return (arn_of account_id ''user'' (DATA_MESH_IAM_PATH K) role_name))"

text \<open>Lines 108 to 117: the group.\<close>

definition configure_iam_group ::
  "constants \<Rightarrow> 's iam_client \<Rightarrow> string \<Rightarrow> string \<Rightarrow> ('s, string) action" where
  "configure_iam_group K c role_name account_id =
     then_do
       (except_already_exists
          (iam_create_group c (DATA_MESH_IAM_PATH K) (role_name @ ''Group''))
          (return ()))
       (\<lambda>_. return (arn_of account_id ''group'' (DATA_MESH_IAM_PATH K) (role_name @ ''Group'')))"

text \<open>Lines 119 to 126: the user goes into the group.\<close>

definition configure_iam_membership :: "'s iam_client \<Rightarrow> string \<Rightarrow> ('s, unit) action" where
  "configure_iam_membership c role_name =
     except_already_exists
       (iam_add_user_to_group c (role_name @ ''Group'') role_name)
       (return ())"

text \<open>
  Lines 128 to 146: the role, trusted by the user and by the root of the account. On a
  conflict the ARN is read back with \<^verbatim>\<open>get_role\<close>.
\<close>

definition configure_iam_role ::
  "constants \<Rightarrow> 's iam_client \<Rightarrow> string \<Rightarrow> string \<Rightarrow> string \<Rightarrow> string \<Rightarrow>
   (string \<times> json) list option \<Rightarrow> ('s, string) action" where
  "configure_iam_role K c role_name role_desc account_id user_arn
     additional_assuming_principals =
     except_already_exists
       (let aws_principals = [user_arn, ''arn:aws:iam::'' @ account_id @ '':root''] in
        case create_assume_role_doc (Some aws_principals) None
               additional_assuming_principals of
          Inl e \<Rightarrow> Pair (Inl e)
        | Inr doc \<Rightarrow>
            then_do
              (iam_create_role c (DATA_MESH_IAM_PATH K) role_name (Dumps doc) role_desc
                 (DEFAULT_TAGS K))
              (\<lambda>role_response. return (Arn role_response)))
       (then_do (iam_get_role c role_name) (\<lambda>response. return (Arn response)))"

text \<open>
  The whole routine. After the role: line 149 attaches the policy to the role, line 154
  creates the policy \<^verbatim>\<open>"Assume%s" % role_name\<close> and drops the ARN it returns, line 157
  attaches \<open>policy_arn\<close> to the group, line 160 returns the ARN of the role.
\<close>

definition configure_iam ::
  "constants \<Rightarrow> host \<Rightarrow> 's iam_client \<Rightarrow> string \<Rightarrow> string \<Rightarrow> string \<Rightarrow> string \<Rightarrow> string \<Rightarrow>
   string \<Rightarrow> (string \<times> string) list option \<Rightarrow> (string \<times> json) list option \<Rightarrow>
   ('s, string) action" where
  "configure_iam K h c policy_name policy_desc policy_template role_name role_desc account_id
     config additional_assuming_principals =
     then_do (configure_iam_policy K h c policy_name policy_desc policy_template account_id
                config) (\<lambda>policy_arn.
     then_do (configure_iam_user K c role_name account_id) (\<lambda>user_arn.
     then_do (configure_iam_group K c role_name account_id) (\<lambda>group_arn.
     then_do (configure_iam_membership c role_name) (\<lambda>_.
     then_do (configure_iam_role K c role_name role_desc account_id user_arn
                additional_assuming_principals) (\<lambda>role_arn.
     then_do (iam_attach_role_policy c role_name policy_arn) (\<lambda>_.
     then_do (create_assume_role_policy K c account_id (''Assume'' @ role_name) role_arn) (\<lambda>_.
     then_do (iam_attach_group_policy c (role_name @ ''Group'') policy_arn) (\<lambda>_.
     return role_arn))))))))"

section \<open>The controller of DataMeshConsumer.py\<close>

record 's sts_client =
  get_caller_identity :: "'s \<Rightarrow> (error + identity) \<times> 's"
  assume_role :: "string \<Rightarrow> string \<Rightarrow> 's \<Rightarrow> (error + credentials) \<times> 's"

definition sts_get_caller_identity :: "'s sts_client \<Rightarrow> ('s, identity) action" where
  "sts_get_caller_identity sts = invoke GetCallerIdentity (get_caller_identity sts)"

definition sts_assume_role :: "'s sts_client \<Rightarrow> string \<Rightarrow> string \<Rightarrow> ('s, credentials) action" where
  "sts_assume_role sts RoleArn RoleSessionName =
     invoke (AssumeRole RoleArn RoleSessionName) (assume_role sts RoleArn RoleSessionName)"

text \<open>
  What the constructor reads of the process it runs in: the environment variable
  \<^verbatim>\<open>AWS_REGION\<close> and the date of the day, formatted. Two names that the constructor
  uses are not in the source and are parameters as well: the function
  \<^verbatim>\<open>utils.get_datamesh_consumer_role_arn\<close>, and the constructor of the class
  \<^verbatim>\<open>SubscriberTracker\<close>, called with the credentials, the region and the log level.
\<close>

record 's process =
  AWS_REGION :: "string option"
  today :: string
  get_datamesh_consumer_role_arn :: "string \<Rightarrow> string"
  SubscriberTracker :: "credentials \<Rightarrow> string option \<Rightarrow> string \<Rightarrow> 's \<Rightarrow> (error + unit) \<times> 's"

record DataMeshConsumer =
  data_mesh_account_id :: string
  data_consumer_role_arn :: string
  data_consumer_account_id :: "string option"
  data_mesh_sts_session :: credentials
  current_region :: "string option"
  log_level :: string

text \<open>
  \<^verbatim>\<open>__init__\<close>, lines 33 to 58, in the order of the source: the region is read on
  line 36, the identity is asked for on line 41, the role is assumed on line 46, the
  tracker is built on line 50, and the region is tested on line 54.
\<close>

definition DataMeshConsumer_init ::
  "'s process \<Rightarrow> 's sts_client \<Rightarrow> string \<Rightarrow> string \<Rightarrow> ('s, DataMeshConsumer) action" where
  "DataMeshConsumer_init P sts mesh_account_id level =
     (let region = AWS_REGION P in
      then_do (sts_get_caller_identity sts) (\<lambda>current_account.
        let session_name =
              UserId current_account @ ''-'' @ Account current_account @ ''-'' @ today P;
            consumer_role_arn = get_datamesh_consumer_role_arn P mesh_account_id in
        then_do (sts_assume_role sts consumer_role_arn session_name) (\<lambda>session.
        then_do (invoke (NewSubscriberTracker session region level)
                   (SubscriberTracker P session region level)) (\<lambda>_.
          if region = None
          then Pair (Inl (Exception
                 ''Cannot create a Data Mesh Consumer without AWS_REGION environment variable''))
          else return
                 \<lparr>data_mesh_account_id = mesh_account_id,
                  data_consumer_role_arn = consumer_role_arn,
                  data_consumer_account_id = None,
                  data_mesh_sts_session = session,
                  current_region = region,
                  log_level = level\<rparr>))))"

text \<open>\<^verbatim>\<open>_check_acct\<close>, lines 60 to 63.\<close>

definition check_acct :: "constants \<Rightarrow> 's iam_client \<Rightarrow> ('s, unit) action" where
  "check_acct K iam =
     then_do (validate_correct_account iam (DATA_MESH_ADMIN_CONSUMER_ROLENAME K)) (\<lambda>ok.
       if ok = False
       then Pair (Inl (Exception ''Function should be run in the Data Consumer Account''))
       else return ())"

text \<open>
  \<^verbatim>\<open>initialize_consumer_account\<close>, lines 66 to 101. It returns what
  \<^verbatim>\<open>configure_iam\<close> returned, with the controller, whose account id it has set.
\<close>

definition initialize_consumer_account ::
  "constants \<Rightarrow> host \<Rightarrow> 's iam_client \<Rightarrow> 's sts_client \<Rightarrow> DataMeshConsumer \<Rightarrow>
   ('s, string \<times> DataMeshConsumer) action" where
  "initialize_consumer_account K h iam sts self =
     then_do (check_acct K iam) (\<lambda>_.
     then_do (sts_get_caller_identity sts) (\<lambda>caller.
       let account = Account caller in
     then_do (configure_iam K h iam (CONSUMER_POLICY_NAME K)
                ''IAM Policy enabling Accounts to Assume the DataMeshAdminConsumer Role''
                ''consumer_policy.pystache''
                (DATA_MESH_CONSUMER_ROLENAME K)
                ''Role to be used to update S3 Bucket Policies for access by the Data Mesh Account''
                account None None) (\<lambda>consumer_iam.
     then_do (create_assume_role_policy K iam account ''AssumeDataMeshAdminConsumer''
                (data_consumer_role_arn self)) (\<lambda>policy_arn.
     then_do (iam_attach_group_policy iam (DATA_MESH_CONSUMER_ROLENAME K @ ''Group'')
                policy_arn) (\<lambda>_.
     return (consumer_iam, self\<lparr>data_consumer_account_id := Some account\<rparr>))))))"

section \<open>A reference IAM service\<close>

text \<open>
  The service itself is outside the repository. Where a property depends on what the
  service answers from one call to the next, it is stated against this reference
  service, which keeps what the routines can observe: names are unique per kind, a
  creation under a name in use raises \<open>EntityAlreadyExistsException\<close> and changes
  nothing, a created policy or role gets the ARN
  \<^verbatim>\<open>arn:aws:iam::{account}:{type}{path}{name}\<close> of the account the service belongs to, an
  operation on a missing role, group, user or policy raises \<open>NoSuchEntityException\<close>,
  and attaching or adding twice is the same as once. Nothing is ever deleted.
\<close>

record iam_state =
  policies :: "(string \<times> string \<times> document) list"
  users :: "string list"
  groups :: "string list"
  memberships :: "(string \<times> string) list"
  roles :: "(string \<times> role) list"
  role_policies :: "(string \<times> string) list"
  group_policies :: "(string \<times> string) list"

definition empty_iam :: iam_state where
  "empty_iam =
     \<lparr>policies = [], users = [], groups = [], memberships = [], roles = [],
      role_policies = [], group_policies = []\<rparr>"

definition policy_arns :: "iam_state \<Rightarrow> string list" where
  "policy_arns s = map (\<lambda>p. fst (snd p)) (policies s)"

definition ref_get_role :: "string \<Rightarrow> iam_state \<Rightarrow> (error + role) \<times> iam_state" where
  "ref_get_role RoleName s =
     (case map_of (roles s) RoleName of
        None \<Rightarrow> (Inl NoSuchEntityException, s)
      | Some r \<Rightarrow> (Inr r, s))"

definition ref_create_policy ::
  "string \<Rightarrow> string \<Rightarrow> string \<Rightarrow> document \<Rightarrow> string \<Rightarrow> tags \<Rightarrow> iam_state \<Rightarrow>
   (error + string) \<times> iam_state" where
  "ref_create_policy acct PolicyName Path PolicyDocument Description Tags s =
     (if PolicyName \<in> set (map fst (policies s)) then (Inl EntityAlreadyExistsException, s)
      else (Inr (arn_of acct ''policy'' Path PolicyName),
            s\<lparr>policies := policies s @
                 [(PolicyName, arn_of acct ''policy'' Path PolicyName, PolicyDocument)]\<rparr>))"

definition ref_create_user ::
  "string \<Rightarrow> string \<Rightarrow> tags \<Rightarrow> iam_state \<Rightarrow> (error + unit) \<times> iam_state" where
  "ref_create_user Path UserName Tags s =
     (if UserName \<in> set (users s) then (Inl EntityAlreadyExistsException, s)
      else (Inr (), s\<lparr>users := users s @ [UserName]\<rparr>))"

definition ref_create_group :: "string \<Rightarrow> string \<Rightarrow> iam_state \<Rightarrow> (error + unit) \<times> iam_state" where
  "ref_create_group Path GroupName s =
     (if GroupName \<in> set (groups s) then (Inl EntityAlreadyExistsException, s)
      else (Inr (), s\<lparr>groups := groups s @ [GroupName]\<rparr>))"

definition ref_add_user_to_group ::
  "string \<Rightarrow> string \<Rightarrow> iam_state \<Rightarrow> (error + unit) \<times> iam_state" where
  "ref_add_user_to_group GroupName UserName s =
     (if GroupName \<in> set (groups s) \<and> UserName \<in> set (users s)
      then (Inr (), s\<lparr>memberships := List.insert (GroupName, UserName) (memberships s)\<rparr>)
      else (Inl NoSuchEntityException, s))"

definition ref_create_role ::
  "string \<Rightarrow> string \<Rightarrow> string \<Rightarrow> document \<Rightarrow> string \<Rightarrow> tags \<Rightarrow> iam_state \<Rightarrow>
   (error + role) \<times> iam_state" where
  "ref_create_role acct Path RoleName doc Description Tags s =
     (if RoleName \<in> set (map fst (roles s)) then (Inl EntityAlreadyExistsException, s)
      else (case doc of
              Rendered t \<Rightarrow> (Inl (ClientError ''MalformedPolicyDocument''), s)
            | Dumps d \<Rightarrow>
                (Inr \<lparr>Arn = arn_of acct ''role'' Path RoleName, AssumeRolePolicyDocument = d\<rparr>,
                 s\<lparr>roles := roles s @
                      [(RoleName,
                        \<lparr>Arn = arn_of acct ''role'' Path RoleName,
                         AssumeRolePolicyDocument = d\<rparr>)]\<rparr>)))"

definition ref_attach_role_policy ::
  "string \<Rightarrow> string \<Rightarrow> iam_state \<Rightarrow> (error + unit) \<times> iam_state" where
  "ref_attach_role_policy RoleName PolicyArn s =
     (if RoleName \<in> set (map fst (roles s)) \<and> PolicyArn \<in> set (policy_arns s)
      then (Inr (), s\<lparr>role_policies := List.insert (RoleName, PolicyArn) (role_policies s)\<rparr>)
      else (Inl NoSuchEntityException, s))"

definition ref_attach_group_policy ::
  "string \<Rightarrow> string \<Rightarrow> iam_state \<Rightarrow> (error + unit) \<times> iam_state" where
  "ref_attach_group_policy GroupName PolicyArn s =
     (if GroupName \<in> set (groups s) \<and> PolicyArn \<in> set (policy_arns s)
      then (Inr (), s\<lparr>group_policies := List.insert (GroupName, PolicyArn) (group_policies s)\<rparr>)
      else (Inl NoSuchEntityException, s))"

definition ref_update_assume_role_policy ::
  "string \<Rightarrow> document \<Rightarrow> iam_state \<Rightarrow> (error + unit) \<times> iam_state" where
  "ref_update_assume_role_policy RoleName PolicyDocument s =
     (if RoleName \<in> set (map fst (roles s))
      then (case PolicyDocument of
              Rendered t \<Rightarrow> (Inl (ClientError ''MalformedPolicyDocument''), s)
            | Dumps d \<Rightarrow>
                (Inr (),
                 s\<lparr>roles := map (\<lambda>(n, r). if n = RoleName
                                          then (n, r\<lparr>AssumeRolePolicyDocument := d\<rparr>)
                                          else (n, r)) (roles s)\<rparr>))
      else (Inl NoSuchEntityException, s))"

definition ref_iam :: "string \<Rightarrow> iam_state iam_client" where
  "ref_iam acct =
     \<lparr>get_role = ref_get_role,
      create_policy = ref_create_policy acct,
      create_user = ref_create_user,
      create_group = ref_create_group,
      add_user_to_group = ref_add_user_to_group,
      create_role = ref_create_role acct,
      attach_role_policy = ref_attach_role_policy,
      attach_group_policy = ref_attach_group_policy,
      update_assume_role_policy = ref_update_assume_role_policy\<rparr>"

text \<open>An identity service of the same account, that answers every call.\<close>

definition ref_sts :: "string \<Rightarrow> iam_state sts_client" where
  "ref_sts acct =
     \<lparr>get_caller_identity = (\<lambda>s. (Inr \<lparr>UserId = ''AIDAEXAMPLE'', Account = acct\<rparr>, s)),
      assume_role = (\<lambda>RoleArn RoleSessionName s.
         (Inr \<lparr>AccessKeyId = ''ASIAEXAMPLE'', SecretAccessKey = ''secret'',
               SessionToken = ''token''\<rparr>, s))\<rparr>"

definition fresh :: "iam_state world" where
  "fresh = \<lparr>cloud = empty_iam, calls = []\<rparr>"

subsection \<open>Values for the examples\<close>

text \<open>
  The two role names are the ones the specification gives. The path, the tags, the name
  of the consumer policy, the template and the process are chosen for the examples; the
  general results do not depend on them.
\<close>

definition example_constants :: constants where
  "example_constants =
     \<lparr>DATA_MESH_IAM_PATH = ''/AwsDataMesh/'',
      DEFAULT_TAGS = [(''Solution'', ''DataMeshUtils'')],
      CONSUMER_POLICY_NAME = ''DataMeshConsumerPolicy'',
      DATA_MESH_CONSUMER_ROLENAME = ''DataMeshConsumer'',
      DATA_MESH_ADMIN_CONSUMER_ROLENAME = ''DataMeshAdminConsumer''\<rparr>"

definition example_host :: host where
  "example_host =
     \<lparr>resource_files =
        (\<lambda>f. if f = ''consumer_policy.pystache'' then Some ''{}'' else None),
      render = (\<lambda>template config. template)\<rparr>"

definition example_process :: "iam_state process" where
  "example_process =
     \<lparr>AWS_REGION = None,
      today = ''2021-10-01'',
      get_datamesh_consumer_role_arn =
        (\<lambda>a. arn_of a ''role'' ''/AwsDataMesh/'' ''DataMeshAdminConsumer''),
      SubscriberTracker = (\<lambda>creds region level s. (Inr (), s))\<rparr>"

definition example_self :: DataMeshConsumer where
  "example_self =
     \<lparr>data_mesh_account_id = ''999999999999'',
      data_consumer_role_arn =
        arn_of ''999999999999'' ''role'' ''/AwsDataMesh/'' ''DataMeshAdminConsumer'',
      data_consumer_account_id = None,
      data_mesh_sts_session =
        \<lparr>AccessKeyId = ''ASIAEXAMPLE'', SecretAccessKey = ''secret'', SessionToken = ''token''\<rparr>,
      current_region = Some ''eu-west-1'',
      log_level = ''INFO''\<rparr>"



text \<open>
  A provisioning of account \<open>111111111111\<close> by \<^verbatim>\<open>configure_iam\<close> with the role name
  \<open>DataMeshConsumer\<close>, no configuration and no additional principals, from a given
  world.
\<close>

definition example_run :: "(iam_state, string) action" where
  "example_run =
     configure_iam example_constants example_host (ref_iam ''111111111111'')
       ''DataMeshConsumerPolicy'' ''policy description'' ''consumer_policy.pystache''
       ''DataMeshConsumer'' ''role description'' ''111111111111'' None None"

text \<open>The two documents of that provisioning, and the world it leaves when run on \<open>fresh\<close>.\<close>

definition example_trust :: json where
  "example_trust =
     JObj [(''Version'', JStr ''2012-10-17''),
           (''Statement'',
            JArr [JObj [(''Effect'', JStr ''Allow''),
                        (''Action'', JStr ''sts:AssumeRole''),
                        (''Principal'',
                         JObj [(''AWS'',
                                JArr [JStr ''arn:aws:iam::111111111111:user/AwsDataMesh/DataMeshConsumer'',
                                      JStr ''arn:aws:iam::111111111111:root''])])]])]"

definition example_assume :: json where
  "example_assume =
     JObj [(''Version'', JStr ''2012-10-17''),
           (''Statement'',
            JArr [JObj [(''Effect'', JStr ''Allow''),
                        (''Action'', JStr ''sts:AssumeRole''),
                        (''Resource'',
                         JStr ''arn:aws:iam::111111111111:role/AwsDataMesh/DataMeshConsumer'')]])]"

definition example_calls :: "api_call list" where
  "example_calls =
     [CreatePolicy ''DataMeshConsumerPolicy'' ''/AwsDataMesh/'' (Rendered ''{}'')
        ''policy description'' [(''Solution'', ''DataMeshUtils'')],
      CreateUser ''/AwsDataMesh/'' ''DataMeshConsumer'' [(''Solution'', ''DataMeshUtils'')],
      CreateGroup ''/AwsDataMesh/'' ''DataMeshConsumerGroup'',
      AddUserToGroup ''DataMeshConsumerGroup'' ''DataMeshConsumer'',
      CreateRole ''/AwsDataMesh/'' ''DataMeshConsumer'' (Dumps example_trust)
        ''role description'' [(''Solution'', ''DataMeshUtils'')],
      AttachRolePolicy ''DataMeshConsumer''
        ''arn:aws:iam::111111111111:policy/AwsDataMesh/DataMeshConsumerPolicy'',
      CreatePolicy ''AssumeDataMeshConsumer'' ''/AwsDataMesh/'' (Dumps example_assume)
        ''Policy allowing the grantee the ability to assume Role arn:aws:iam::111111111111:role/AwsDataMesh/DataMeshConsumer''
        [(''Solution'', ''DataMeshUtils'')],
      AttachGroupPolicy ''DataMeshConsumerGroup''
        ''arn:aws:iam::111111111111:policy/AwsDataMesh/DataMeshConsumerPolicy'']"

definition provisioned :: "iam_state world" where
  "provisioned =
     \<lparr>cloud =
        \<lparr>policies =
           [(''DataMeshConsumerPolicy'',
             ''arn:aws:iam::111111111111:policy/AwsDataMesh/DataMeshConsumerPolicy'',
             Rendered ''{}''),
            (''AssumeDataMeshConsumer'',
             ''arn:aws:iam::111111111111:policy/AwsDataMesh/AssumeDataMeshConsumer'',
             Dumps example_assume)],
         users = [''DataMeshConsumer''],
         groups = [''DataMeshConsumerGroup''],
         memberships = [(''DataMeshConsumerGroup'', ''DataMeshConsumer'')],
         roles =
           [(''DataMeshConsumer'',
             \<lparr>Arn = ''arn:aws:iam::111111111111:role/AwsDataMesh/DataMeshConsumer'',
              AssumeRolePolicyDocument = example_trust\<rparr>)],
         role_policies =
           [(''DataMeshConsumer'',
             ''arn:aws:iam::111111111111:policy/AwsDataMesh/DataMeshConsumerPolicy'')],
         group_policies =
           [(''DataMeshConsumerGroup'',
             ''arn:aws:iam::111111111111:policy/AwsDataMesh/DataMeshConsumerPolicy'')]\<rparr>,
      calls = example_calls\<rparr>"

subsection \<open>Notions used in the proofs\<close>




text \<open>
  \<open>kept s s'\<close>: what exists in the reference service in state \<open>s\<close> still exists in
  \<open>s'\<close>, each role as it was. \<open>keeps m\<close>: the action \<open>m\<close> loses nothing.
\<close>

definition kept :: "iam_state \<Rightarrow> iam_state \<Rightarrow> bool" where
  "kept s s' =
     (set (map fst (policies s)) \<subseteq> set (map fst (policies s')) \<and>
      set (policy_arns s) \<subseteq> set (policy_arns s') \<and>
      set (users s) \<subseteq> set (users s') \<and>
      set (groups s) \<subseteq> set (groups s') \<and>
      (\<forall>n r. map_of (roles s) n = Some r \<longrightarrow> map_of (roles s') n = Some r))"

definition keeps :: "(iam_state, 'a) action \<Rightarrow> bool" where
  "keeps m = (\<forall>w. kept (cloud w) (cloud (snd (m w))))"

section \<open>Sequencing lemmas\<close>

lemma then_do_Inl: "m w = (Inl e, w') \<Longrightarrow> then_do m f w = (Inl e, w')"
  by (simp add: then_do_def)

lemma then_do_Inr: "m w = (Inr a, w') \<Longrightarrow> then_do m f w = f a w'"
  by (simp add: then_do_def)


section \<open>The document builder\<close>

text \<open>
  C6. \<^verbatim>\<open>create_assume_role_doc(aws_principals=["A","B"])\<close>, with no resource and no
  additional principals, returns a document with exactly one statement, whose effect is
  \<open>Allow\<close>, whose action is \<open>sts:AssumeRole\<close>, and whose \<open>Principal.AWS\<close> is the list
  \<open>["A","B"]\<close>.
\<close>

theorem create_assume_role_doc_two_principals:
  "create_assume_role_doc (Some [''A'', ''B'']) None None =
     Inr (JObj [(''Version'', JStr ''2012-10-17''),
                (''Statement'',
                 JArr [JObj [(''Effect'', JStr ''Allow''),
                             (''Action'', JStr ''sts:AssumeRole''),
                             (''Principal'', JObj [(''AWS'', JArr [JStr ''A'', JStr ''B''])])]])])"
  by (simp add: create_assume_role_doc_def)

lemma merge_additional_no_principal:
  "map_of statement ''Principal'' = None \<Longrightarrow>
   merge_additional items statement =
     (if items = [] then Inr statement else Inl (KeyError ''Principal''))"
  by (cases items) auto

text \<open>
  C10, as the claim states it, fails: with \<open>aws_principals\<close> absent and
  \<open>additional_principals\<close> the empty dictionary, which is not \<open>None\<close>, the loop has no
  round and the function returns a document.
\<close>

theorem create_assume_role_doc_empty_additional_returns:
  "create_assume_role_doc None None (Some []) =
     Inr (JObj [(''Version'', JStr ''2012-10-17''),
                (''Statement'',
                 JArr [JObj [(''Effect'', JStr ''Allow''),
                             (''Action'', JStr ''sts:AssumeRole'')]])])"
  by (simp add: create_assume_role_doc_def)

text \<open>
  C10, amended. With \<open>aws_principals\<close> absent and \<open>additional_principals\<close> given, the
  function fails with \<open>KeyError('Principal')\<close> exactly when the dictionary has at least one
  entry; for the empty dictionary it returns the document with no \<open>Principal\<close>, and with
  the \<open>Resource\<close> when one is given.
\<close>

theorem create_assume_role_doc_additional_without_aws:
  "create_assume_role_doc None resource (Some items) =
     (if items = []
      then Inr (JObj [(''Version'', JStr ''2012-10-17''),
                      (''Statement'',
                       JArr [JObj ([(''Effect'', JStr ''Allow''),
                                    (''Action'', JStr ''sts:AssumeRole'')] @
                                   (case resource of
                                      None \<Rightarrow> []
                                    | Some r \<Rightarrow> [(''Resource'', JStr r)]))])])
      else Inl (KeyError ''Principal''))"
  by (simp add: create_assume_role_doc_def merge_additional_no_principal split: option.splits)

section \<open>The account check\<close>

lemma ref_get_role_exists:
  "fst (ref_get_role n s) = (if n \<in> set (map fst (roles s))
                            then Inr (the (map_of (roles s) n))
                            else Inl NoSuchEntityException)"
  by (auto simp: ref_get_role_def map_of_eq_None_iff [symmetric] split: option.splits)

text \<open>
  C8. \<^verbatim>\<open>validate_correct_account\<close> returns \<open>True\<close> exactly when the lookup of the role
  succeeds and \<open>False\<close> exactly when the lookup raises the not-found exception, which
  therefore never leaves the function; any other exception of the lookup goes on to the
  caller. Against the reference service the result is the boolean "a role of that name
  exists".
\<close>

theorem validate_correct_account_iff_role_exists:
  "(fst (validate_correct_account c role_must_exist w) = Inr True
      \<longleftrightarrow> (\<exists>r. fst (get_role c role_must_exist (cloud w)) = Inr r)) \<and>
   (fst (validate_correct_account c role_must_exist w) = Inr False
      \<longleftrightarrow> fst (get_role c role_must_exist (cloud w)) = Inl NoSuchEntityException) \<and>
   fst (validate_correct_account c role_must_exist w) \<noteq> Inl NoSuchEntityException \<and>
   fst (validate_correct_account (ref_iam acct) role_must_exist v) =
     Inr (role_must_exist \<in> set (map fst (roles (cloud v))))"
proof -
  have general:
    "fst (validate_correct_account c' n w') =
       (case fst (get_role c' n (cloud w')) of
          Inr r \<Rightarrow> Inr True
        | Inl e \<Rightarrow> if e = NoSuchEntityException then Inr False else Inl e)"
    for c' :: "'x iam_client" and n w'
    by (simp add: validate_correct_account_def iam_get_role_def invoke_def
             split: prod.splits sum.splits)
  have "fst (validate_correct_account (ref_iam acct) role_must_exist v) =
          Inr (role_must_exist \<in> set (map fst (roles (cloud v))))"
    by (simp add: general ref_iam_def ref_get_role_exists)
  moreover have
    "(fst (validate_correct_account c role_must_exist w) = Inr True
        \<longleftrightarrow> (\<exists>r. fst (get_role c role_must_exist (cloud w)) = Inr r))"
    "(fst (validate_correct_account c role_must_exist w) = Inr False
        \<longleftrightarrow> fst (get_role c role_must_exist (cloud w)) = Inl NoSuchEntityException)"
    "fst (validate_correct_account c role_must_exist w) \<noteq> Inl NoSuchEntityException"
    by (auto simp: general split: sum.splits)
  ultimately show ?thesis by blast
qed

lemma validate_correct_account_missing:
  "get_role c n (cloud w) = (Inl NoSuchEntityException, s') \<Longrightarrow>
   validate_correct_account c n w = (Inr False, \<lparr>cloud = s', calls = calls w @ [GetRole n]\<rparr>)"
  by (simp add: validate_correct_account_def iam_get_role_def invoke_def)

lemma check_acct_missing:
  "get_role iam (DATA_MESH_ADMIN_CONSUMER_ROLENAME K) (cloud w) =
     (Inl NoSuchEntityException, s') \<Longrightarrow>
   check_acct K iam w =
     (Inl (Exception ''Function should be run in the Data Consumer Account''),
      \<lparr>cloud = s', calls = calls w @ [GetRole (DATA_MESH_ADMIN_CONSUMER_ROLENAME K)]\<rparr>)"
  by (simp add: check_acct_def then_do_Inr [OF validate_correct_account_missing])

text \<open>
  C7. When the lookup of the administrative role answers not-found,
  \<^verbatim>\<open>initialize_consumer_account\<close> raises, and the one remote call it has made is that
  lookup: no identity call, no creation, no attachment. The remote state is the one the
  lookup left.
\<close>

theorem initialize_consumer_account_wrong_account:
  assumes "fst (get_role iam (DATA_MESH_ADMIN_CONSUMER_ROLENAME K) (cloud w)) =
             Inl NoSuchEntityException"
  shows "initialize_consumer_account K h iam sts self w =
           (Inl (Exception ''Function should be run in the Data Consumer Account''),
            \<lparr>cloud = snd (get_role iam (DATA_MESH_ADMIN_CONSUMER_ROLENAME K) (cloud w)),
             calls = calls w @ [GetRole (DATA_MESH_ADMIN_CONSUMER_ROLENAME K)]\<rparr>)"
proof -
  obtain s' where
    "get_role iam (DATA_MESH_ADMIN_CONSUMER_ROLENAME K) (cloud w) =
       (Inl NoSuchEntityException, s')"
    using assms by (cases "get_role iam (DATA_MESH_ADMIN_CONSUMER_ROLENAME K) (cloud w)") simp
  then show ?thesis
    by (simp add: initialize_consumer_account_def then_do_Inl [OF check_acct_missing])
qed

theorem initialize_consumer_account_wrong_account_witness:
  "fst (get_role (ref_iam ''111111111111'')
          (DATA_MESH_ADMIN_CONSUMER_ROLENAME example_constants) (cloud fresh)) =
     Inl NoSuchEntityException \<and>
   initialize_consumer_account example_constants example_host (ref_iam ''111111111111'')
       (ref_sts ''111111111111'') example_self fresh =
     (Inl (Exception ''Function should be run in the Data Consumer Account''),
      \<lparr>cloud = empty_iam, calls = [GetRole ''DataMeshAdminConsumer'']\<rparr>)"
proof -
  have missing:
    "fst (get_role (ref_iam ''111111111111'')
            (DATA_MESH_ADMIN_CONSUMER_ROLENAME example_constants) (cloud fresh)) =
       Inl NoSuchEntityException"
    by (simp add: ref_iam_def ref_get_role_def fresh_def empty_iam_def)
  show ?thesis
    using missing
      initialize_consumer_account_wrong_account
        [OF missing, of example_host "ref_sts ''111111111111''" example_self]
    by (simp add: ref_iam_def ref_get_role_def fresh_def empty_iam_def example_constants_def)
qed

section \<open>The constructor\<close>


text \<open>
  With services that answer, the configuration error is raised only after the three
  remote steps have been made.
\<close>

lemma DataMeshConsumer_init_no_region_run:
  "DataMeshConsumer_init example_process (ref_sts ''111111111111'') ''999999999999'' ''INFO''
     fresh =
     (Inl (Exception
        ''Cannot create a Data Mesh Consumer without AWS_REGION environment variable''),
      \<lparr>cloud = empty_iam,
       calls = [GetCallerIdentity,
                AssumeRole ''arn:aws:iam::999999999999:role/AwsDataMesh/DataMeshAdminConsumer''
                  ''AIDAEXAMPLE-111111111111-2021-10-01'',
                NewSubscriberTracker
                  \<lparr>AccessKeyId = ''ASIAEXAMPLE'', SecretAccessKey = ''secret'',
                   SessionToken = ''token''\<rparr> None ''INFO'']\<rparr>)"
  by (simp add: DataMeshConsumer_init_def then_do_def sts_get_caller_identity_def
        sts_assume_role_def invoke_def Let_def example_process_def ref_sts_def fresh_def
        arn_of_def)

section \<open>Facts about the steps\<close>

lemmas step_defs =
  configure_iam_def configure_iam_policy_def configure_iam_user_def configure_iam_group_def
  configure_iam_membership_def configure_iam_role_def create_assume_role_policy_def
  then_do_def return_def except_already_exists_def invoke_def
  iam_get_role_def iam_create_policy_def iam_create_user_def iam_create_group_def
  iam_add_user_to_group_def iam_create_role_def iam_attach_role_policy_def
  iam_attach_group_policy_def generate_policy_def create_assume_role_doc_def arn_of_def

lemmas ref_defs =
  ref_iam_def ref_get_role_def ref_create_policy_def ref_create_user_def ref_create_group_def
  ref_add_user_to_group_def ref_create_role_def ref_attach_role_policy_def
  ref_attach_group_policy_def policy_arns_def

lemmas example_defs =
  example_run_def example_constants_def example_host_def example_trust_def
  example_assume_def example_calls_def provisioned_def fresh_def empty_iam_def


lemma assume_policy_document:
  "create_assume_role_doc None (Some role_arn) None =
     Inr (JObj [(''Version'', JStr ''2012-10-17''),
                (''Statement'',
                 JArr [JObj [(''Effect'', JStr ''Allow''),
                             (''Action'', JStr ''sts:AssumeRole''),
                             (''Resource'', JStr role_arn)]])])"
  by (simp add: create_assume_role_doc_def)

lemma invoke_fst_snd:
  "invoke ev f w = (fst (f (cloud w)), \<lparr>cloud = snd (f (cloud w)), calls = calls w @ [ev]\<rparr>)"
  by (simp add: invoke_def split: prod.splits)



text \<open>The first provisioning of the fresh account, and a second one right after it.\<close>

lemma example_first_run:
  "example_run fresh =
     (Inr ''arn:aws:iam::111111111111:role/AwsDataMesh/DataMeshConsumer'', provisioned)"
  by (simp add: step_defs ref_defs example_defs)

lemma example_second_run:
  "example_run provisioned =
     (Inr ''arn:aws:iam::111111111111:role/AwsDataMesh/DataMeshConsumer'',
      \<lparr>cloud = cloud provisioned,
       calls = example_calls @
         [CreatePolicy ''DataMeshConsumerPolicy'' ''/AwsDataMesh/'' (Rendered ''{}'')
            ''policy description'' [(''Solution'', ''DataMeshUtils'')],
          CreateUser ''/AwsDataMesh/'' ''DataMeshConsumer'' [(''Solution'', ''DataMeshUtils'')],
          CreateGroup ''/AwsDataMesh/'' ''DataMeshConsumerGroup'',
          AddUserToGroup ''DataMeshConsumerGroup'' ''DataMeshConsumer'',
          CreateRole ''/AwsDataMesh/'' ''DataMeshConsumer'' (Dumps example_trust)
            ''role description'' [(''Solution'', ''DataMeshUtils'')],
          GetRole ''DataMeshConsumer'',
          AttachRolePolicy ''DataMeshConsumer''
            ''arn:aws:iam::111111111111:policy/AwsDataMesh/DataMeshConsumerPolicy'',
          CreatePolicy ''AssumeDataMeshConsumer'' ''/AwsDataMesh/'' (Dumps example_assume)
            ''Policy allowing the grantee the ability to assume Role arn:aws:iam::111111111111:role/AwsDataMesh/DataMeshConsumer''
            [(''Solution'', ''DataMeshUtils'')],
          AttachGroupPolicy ''DataMeshConsumerGroup''
            ''arn:aws:iam::111111111111:policy/AwsDataMesh/DataMeshConsumerPolicy'']\<rparr>)"
  by (simp add: step_defs ref_defs example_defs)

section \<open>The first provisioning\<close>

text \<open>
  C2. The claim asks that the first provisioning of account \<open>111111111111\<close> with the role
  name \<open>DataMeshConsumer\<close> creates the policy \<open>AssumeDataMeshConsumer\<close>, scoped to the
  ARN of the new role, and attaches that policy to the group \<open>DataMeshConsumerGroup\<close>.
  The run on the fresh account returns the ARN of the new role and creates the policy
  with that ARN as its resource; but the policy that line 157 attaches to the group is
  \<open>policy_arn\<close>, the consumer policy of line 82, and the group is left without the
  \<open>AssumeDataMeshConsumer\<close> policy, whose ARN line 154 drops.
\<close>

theorem configure_iam_first_run_group_attachment:
  "fst (example_run fresh) = Inr ''arn:aws:iam::111111111111:role/AwsDataMesh/DataMeshConsumer'' \<and>
   map_of (policies (cloud (snd (example_run fresh)))) ''AssumeDataMeshConsumer'' =
     Some (''arn:aws:iam::111111111111:policy/AwsDataMesh/AssumeDataMeshConsumer'',
           Dumps (JObj [(''Version'', JStr ''2012-10-17''),
                        (''Statement'',
                         JArr [JObj [(''Effect'', JStr ''Allow''),
                                     (''Action'', JStr ''sts:AssumeRole''),
                                     (''Resource'',
                                      JStr ''arn:aws:iam::111111111111:role/AwsDataMesh/DataMeshConsumer'')]])])) \<and>
   group_policies (cloud (snd (example_run fresh))) =
     [(''DataMeshConsumerGroup'',
       ''arn:aws:iam::111111111111:policy/AwsDataMesh/DataMeshConsumerPolicy'')] \<and>
   (''DataMeshConsumerGroup'',
    ''arn:aws:iam::111111111111:policy/AwsDataMesh/AssumeDataMeshConsumer'')
     \<notin> set (group_policies (cloud (snd (example_run fresh)))) \<and>
   AttachGroupPolicy ''DataMeshConsumerGroup''
     ''arn:aws:iam::111111111111:policy/AwsDataMesh/AssumeDataMeshConsumer''
     \<notin> set (calls (snd (example_run fresh)))"
  by (simp add: example_first_run provisioned_def example_assume_def example_calls_def)

section \<open>Adding a trusted account to a role\<close>





section \<open>Recovery from a conflict\<close>

lemma policy_conflict:
  assumes "generate_policy h policy_template config = Inr rendered"
    "fst (create_policy c policy_name (DATA_MESH_IAM_PATH K) (Rendered rendered) policy_desc
           (DEFAULT_TAGS K) (cloud w)) = Inl EntityAlreadyExistsException"
  shows "configure_iam_policy K h c policy_name policy_desc policy_template account_id config w =
      (Inr (arn_of account_id ''policy'' (DATA_MESH_IAM_PATH K) policy_name),
       \<lparr>cloud = snd (create_policy c policy_name (DATA_MESH_IAM_PATH K) (Rendered rendered)
                      policy_desc (DEFAULT_TAGS K) (cloud w)),
        calls = calls w @ [CreatePolicy policy_name (DATA_MESH_IAM_PATH K) (Rendered rendered)
                             policy_desc (DEFAULT_TAGS K)]\<rparr>)"
  using assms
  by (simp add: configure_iam_policy_def except_already_exists_def iam_create_policy_def
        invoke_fst_snd return_def)

lemma user_conflict:
  assumes "fst (create_user c (DATA_MESH_IAM_PATH K) role_name (DEFAULT_TAGS K) (cloud w)) =
      Inl EntityAlreadyExistsException"
  shows "configure_iam_user K c role_name account_id w =
      (Inr (arn_of account_id ''user'' (DATA_MESH_IAM_PATH K) role_name),
       \<lparr>cloud = snd (create_user c (DATA_MESH_IAM_PATH K) role_name (DEFAULT_TAGS K) (cloud w)),
        calls = calls w @ [CreateUser (DATA_MESH_IAM_PATH K) role_name (DEFAULT_TAGS K)]\<rparr>)"
  using assms
  by (simp add: configure_iam_user_def except_already_exists_def iam_create_user_def
        invoke_fst_snd return_def then_do_def)

lemma group_conflict:
  assumes "fst (create_group c (DATA_MESH_IAM_PATH K) (role_name @ ''Group'') (cloud w)) =
      Inl EntityAlreadyExistsException"
  shows "configure_iam_group K c role_name account_id w =
      (Inr (arn_of account_id ''group'' (DATA_MESH_IAM_PATH K) (role_name @ ''Group'')),
       \<lparr>cloud = snd (create_group c (DATA_MESH_IAM_PATH K) (role_name @ ''Group'') (cloud w)),
        calls = calls w @ [CreateGroup (DATA_MESH_IAM_PATH K) (role_name @ ''Group'')]\<rparr>)"
  using assms
  by (simp add: configure_iam_group_def except_already_exists_def iam_create_group_def
        invoke_fst_snd return_def then_do_def)

lemma assume_policy_conflict:
  assumes "fst (create_policy c assume_name (DATA_MESH_IAM_PATH K)
           (Dumps (JObj [(''Version'', JStr ''2012-10-17''),
                         (''Statement'',
                          JArr [JObj [(''Effect'', JStr ''Allow''),
                                      (''Action'', JStr ''sts:AssumeRole''),
                                      (''Resource'', JStr role_arn)]])]))
           (''Policy allowing the grantee the ability to assume Role '' @ role_arn)
           (DEFAULT_TAGS K) (cloud w)) = Inl EntityAlreadyExistsException"
  shows "fst (create_assume_role_policy K c account_id assume_name role_arn w) =
      Inr (arn_of account_id ''policy'' (DATA_MESH_IAM_PATH K) assume_name) \<and>
    calls (snd (create_assume_role_policy K c account_id assume_name role_arn w)) =
      calls w @ [CreatePolicy assume_name (DATA_MESH_IAM_PATH K)
           (Dumps (JObj [(''Version'', JStr ''2012-10-17''),
                         (''Statement'',
                          JArr [JObj [(''Effect'', JStr ''Allow''),
                                      (''Action'', JStr ''sts:AssumeRole''),
                                      (''Resource'', JStr role_arn)]])]))
           (''Policy allowing the grantee the ability to assume Role '' @ role_arn)
           (DEFAULT_TAGS K)]"
  using assms
  by (simp add: create_assume_role_policy_def assume_policy_document
        except_already_exists_def iam_create_policy_def invoke_fst_snd return_def)

lemma role_conflict:
  assumes "create_assume_role_doc (Some [user_arn, ''arn:aws:iam::'' @ account_id @ '':root''])
      None additional = Inr trust"
    "fst (create_role c (DATA_MESH_IAM_PATH K) role_name (Dumps trust) role_desc (DEFAULT_TAGS K)
           (cloud w)) = Inl EntityAlreadyExistsException"
  shows "fst (configure_iam_role K c role_name role_desc account_id user_arn additional w) =
      map_sum id Arn
        (fst (get_role c role_name
                (snd (create_role c (DATA_MESH_IAM_PATH K) role_name (Dumps trust) role_desc
                        (DEFAULT_TAGS K) (cloud w))))) \<and>
    calls (snd (configure_iam_role K c role_name role_desc account_id user_arn additional w)) =
      calls w @ [CreateRole (DATA_MESH_IAM_PATH K) role_name (Dumps trust) role_desc
                   (DEFAULT_TAGS K),
                 GetRole role_name]"
  using assms
  by (simp add: configure_iam_role_def except_already_exists_def iam_create_role_def
        iam_get_role_def invoke_fst_snd return_def then_do_def split: sum.splits)

text \<open>
  C3, as the claim states it, fails for the role: when the role exists, the second
  provisioning meets the conflict on \<^verbatim>\<open>create_role\<close> and then asks the service for the
  role (line 145), a call that the first provisioning does not make.
\<close>

theorem configure_iam_role_conflict_looks_up:
  "fst (create_role (ref_iam ''111111111111'') ''/AwsDataMesh/'' ''DataMeshConsumer''
          (Dumps example_trust) ''role description'' [(''Solution'', ''DataMeshUtils'')]
          (cloud (snd (example_run fresh)))) = Inl EntityAlreadyExistsException \<and>
   GetRole ''DataMeshConsumer''
     \<in> set (drop (length (calls (snd (example_run fresh))))
               (calls (snd (example_run (snd (example_run fresh)))))) \<and>
   GetRole ''DataMeshConsumer'' \<notin> set (calls (snd (example_run fresh)))"
  by (simp add: example_first_run example_second_run)
     (simp add: provisioned_def example_calls_def ref_iam_def ref_create_role_def)

text \<open>
  C3, amended. Step by step, for any service. When the creation of the policy (in
  \<^verbatim>\<open>configure_iam\<close> and in \<^verbatim>\<open>create_assume_role_policy\<close>) meets a conflict, the step
  returns the ARN built from the template and has made no other call than the creation.
  When the creation of the user or of the group meets a conflict, the step goes on with
  the ARN built from the template, which it uses in all cases, and has made no other
  call. When the creation of the role meets a conflict, the step makes one more call,
  \<^verbatim>\<open>get_role\<close>, and returns the ARN of the role that this lookup answers (or raises what
  the lookup raises).
\<close>

theorem conflict_recovery_by_step:
  "(generate_policy h policy_template config = Inr rendered \<and>
    fst (create_policy c policy_name (DATA_MESH_IAM_PATH K) (Rendered rendered) policy_desc
           (DEFAULT_TAGS K) (cloud w)) = Inl EntityAlreadyExistsException \<longrightarrow>
    configure_iam_policy K h c policy_name policy_desc policy_template account_id config w =
      (Inr (arn_of account_id ''policy'' (DATA_MESH_IAM_PATH K) policy_name),
       \<lparr>cloud = snd (create_policy c policy_name (DATA_MESH_IAM_PATH K) (Rendered rendered)
                      policy_desc (DEFAULT_TAGS K) (cloud w)),
        calls = calls w @ [CreatePolicy policy_name (DATA_MESH_IAM_PATH K) (Rendered rendered)
                             policy_desc (DEFAULT_TAGS K)]\<rparr>)) \<and>
   (fst (create_user c (DATA_MESH_IAM_PATH K) role_name (DEFAULT_TAGS K) (cloud w)) =
      Inl EntityAlreadyExistsException \<longrightarrow>
    configure_iam_user K c role_name account_id w =
      (Inr (arn_of account_id ''user'' (DATA_MESH_IAM_PATH K) role_name),
       \<lparr>cloud = snd (create_user c (DATA_MESH_IAM_PATH K) role_name (DEFAULT_TAGS K) (cloud w)),
        calls = calls w @ [CreateUser (DATA_MESH_IAM_PATH K) role_name (DEFAULT_TAGS K)]\<rparr>)) \<and>
   (fst (create_group c (DATA_MESH_IAM_PATH K) (role_name @ ''Group'') (cloud w)) =
      Inl EntityAlreadyExistsException \<longrightarrow>
    configure_iam_group K c role_name account_id w =
      (Inr (arn_of account_id ''group'' (DATA_MESH_IAM_PATH K) (role_name @ ''Group'')),
       \<lparr>cloud = snd (create_group c (DATA_MESH_IAM_PATH K) (role_name @ ''Group'') (cloud w)),
        calls = calls w @ [CreateGroup (DATA_MESH_IAM_PATH K) (role_name @ ''Group'')]\<rparr>)) \<and>
   (fst (create_policy c assume_name (DATA_MESH_IAM_PATH K)
           (Dumps (JObj [(''Version'', JStr ''2012-10-17''),
                         (''Statement'',
                          JArr [JObj [(''Effect'', JStr ''Allow''),
                                      (''Action'', JStr ''sts:AssumeRole''),
                                      (''Resource'', JStr role_arn)]])]))
           (''Policy allowing the grantee the ability to assume Role '' @ role_arn)
           (DEFAULT_TAGS K) (cloud w)) = Inl EntityAlreadyExistsException \<longrightarrow>
    fst (create_assume_role_policy K c account_id assume_name role_arn w) =
      Inr (arn_of account_id ''policy'' (DATA_MESH_IAM_PATH K) assume_name) \<and>
    calls (snd (create_assume_role_policy K c account_id assume_name role_arn w)) =
      calls w @ [CreatePolicy assume_name (DATA_MESH_IAM_PATH K)
           (Dumps (JObj [(''Version'', JStr ''2012-10-17''),
                         (''Statement'',
                          JArr [JObj [(''Effect'', JStr ''Allow''),
                                      (''Action'', JStr ''sts:AssumeRole''),
                                      (''Resource'', JStr role_arn)]])]))
           (''Policy allowing the grantee the ability to assume Role '' @ role_arn)
           (DEFAULT_TAGS K)]) \<and>
   (create_assume_role_doc (Some [user_arn, ''arn:aws:iam::'' @ account_id @ '':root'']) None
      additional = Inr trust \<and>
    fst (create_role c (DATA_MESH_IAM_PATH K) role_name (Dumps trust) role_desc (DEFAULT_TAGS K)
           (cloud w)) = Inl EntityAlreadyExistsException \<longrightarrow>
    fst (configure_iam_role K c role_name role_desc account_id user_arn additional w) =
      map_sum id Arn
        (fst (get_role c role_name
                (snd (create_role c (DATA_MESH_IAM_PATH K) role_name (Dumps trust) role_desc
                        (DEFAULT_TAGS K) (cloud w))))) \<and>
    calls (snd (configure_iam_role K c role_name role_desc account_id user_arn additional w)) =
      calls w @ [CreateRole (DATA_MESH_IAM_PATH K) role_name (Dumps trust) role_desc
                   (DEFAULT_TAGS K),
                 GetRole role_name])"
proof (intro conjI impI)
  show "configure_iam_policy K h c policy_name policy_desc policy_template account_id config w =
      (Inr (arn_of account_id ''policy'' (DATA_MESH_IAM_PATH K) policy_name),
       \<lparr>cloud = snd (create_policy c policy_name (DATA_MESH_IAM_PATH K) (Rendered rendered)
                      policy_desc (DEFAULT_TAGS K) (cloud w)),
        calls = calls w @ [CreatePolicy policy_name (DATA_MESH_IAM_PATH K) (Rendered rendered)
                             policy_desc (DEFAULT_TAGS K)]\<rparr>)"
    if "generate_policy h policy_template config = Inr rendered \<and>
        fst (create_policy c policy_name (DATA_MESH_IAM_PATH K) (Rendered rendered) policy_desc
           (DEFAULT_TAGS K) (cloud w)) = Inl EntityAlreadyExistsException"
    using that by (intro policy_conflict) simp_all
qed (simp_all add: user_conflict group_conflict assume_policy_conflict role_conflict)

theorem conflict_recovery_by_step_witness:
  "configure_iam_policy example_constants example_host (ref_iam ''111111111111'')
     ''DataMeshConsumerPolicy'' ''policy description'' ''consumer_policy.pystache''
     ''111111111111'' None provisioned =
     (Inr ''arn:aws:iam::111111111111:policy/AwsDataMesh/DataMeshConsumerPolicy'',
      \<lparr>cloud = cloud provisioned,
       calls = example_calls @
         [CreatePolicy ''DataMeshConsumerPolicy'' ''/AwsDataMesh/'' (Rendered ''{}'')
            ''policy description'' [(''Solution'', ''DataMeshUtils'')]]\<rparr>) \<and>
   configure_iam_user example_constants (ref_iam ''111111111111'') ''DataMeshConsumer''
     ''111111111111'' provisioned =
     (Inr ''arn:aws:iam::111111111111:user/AwsDataMesh/DataMeshConsumer'',
      \<lparr>cloud = cloud provisioned,
       calls = example_calls @
         [CreateUser ''/AwsDataMesh/'' ''DataMeshConsumer''
            [(''Solution'', ''DataMeshUtils'')]]\<rparr>) \<and>
   configure_iam_group example_constants (ref_iam ''111111111111'') ''DataMeshConsumer''
     ''111111111111'' provisioned =
     (Inr ''arn:aws:iam::111111111111:group/AwsDataMesh/DataMeshConsumerGroup'',
      \<lparr>cloud = cloud provisioned,
       calls = example_calls @ [CreateGroup ''/AwsDataMesh/'' ''DataMeshConsumerGroup'']\<rparr>) \<and>
   fst (create_assume_role_policy example_constants (ref_iam ''111111111111'')
          ''111111111111'' ''AssumeDataMeshConsumer''
          ''arn:aws:iam::111111111111:role/AwsDataMesh/DataMeshConsumer'' provisioned) =
     Inr ''arn:aws:iam::111111111111:policy/AwsDataMesh/AssumeDataMeshConsumer'' \<and>
   calls (snd (create_assume_role_policy example_constants (ref_iam ''111111111111'')
          ''111111111111'' ''AssumeDataMeshConsumer''
          ''arn:aws:iam::111111111111:role/AwsDataMesh/DataMeshConsumer'' provisioned)) =
     example_calls @
       [CreatePolicy ''AssumeDataMeshConsumer'' ''/AwsDataMesh/'' (Dumps example_assume)
          ''Policy allowing the grantee the ability to assume Role arn:aws:iam::111111111111:role/AwsDataMesh/DataMeshConsumer''
          [(''Solution'', ''DataMeshUtils'')]] \<and>
   fst (configure_iam_role example_constants (ref_iam ''111111111111'') ''DataMeshConsumer''
          ''role description'' ''111111111111''
          ''arn:aws:iam::111111111111:user/AwsDataMesh/DataMeshConsumer'' None provisioned) =
     Inr ''arn:aws:iam::111111111111:role/AwsDataMesh/DataMeshConsumer'' \<and>
   calls (snd (configure_iam_role example_constants (ref_iam ''111111111111'')
          ''DataMeshConsumer'' ''role description'' ''111111111111''
          ''arn:aws:iam::111111111111:user/AwsDataMesh/DataMeshConsumer'' None provisioned)) =
     example_calls @
       [CreateRole ''/AwsDataMesh/'' ''DataMeshConsumer'' (Dumps example_trust)
          ''role description'' [(''Solution'', ''DataMeshUtils'')],
        GetRole ''DataMeshConsumer'']"
proof -
  let ?c = "ref_iam ''111111111111''"
  have rendered:
    "generate_policy example_host ''consumer_policy.pystache'' None = Inr ''{}''"
    by (simp add: generate_policy_def example_host_def)
  have policy:
    "fst (create_policy ?c ''DataMeshConsumerPolicy'' (DATA_MESH_IAM_PATH example_constants)
            (Rendered ''{}'') ''policy description'' (DEFAULT_TAGS example_constants)
            (cloud provisioned)) = Inl EntityAlreadyExistsException"
    by (simp add: ref_defs example_defs)
  have user:
    "fst (create_user ?c (DATA_MESH_IAM_PATH example_constants) ''DataMeshConsumer''
            (DEFAULT_TAGS example_constants) (cloud provisioned)) =
       Inl EntityAlreadyExistsException"
    by (simp add: ref_defs example_defs)
  have grp:
    "fst (create_group ?c (DATA_MESH_IAM_PATH example_constants)
            (''DataMeshConsumer'' @ ''Group'') (cloud provisioned)) =
       Inl EntityAlreadyExistsException"
    by (simp add: ref_defs example_defs)
  have assumable:
    "fst (create_policy ?c ''AssumeDataMeshConsumer'' (DATA_MESH_IAM_PATH example_constants)
           (Dumps (JObj [(''Version'', JStr ''2012-10-17''),
                         (''Statement'',
                          JArr [JObj [(''Effect'', JStr ''Allow''),
                                      (''Action'', JStr ''sts:AssumeRole''),
                                      (''Resource'',
                                       JStr ''arn:aws:iam::111111111111:role/AwsDataMesh/DataMeshConsumer'')]])]))
           (''Policy allowing the grantee the ability to assume Role '' @
            ''arn:aws:iam::111111111111:role/AwsDataMesh/DataMeshConsumer'')
           (DEFAULT_TAGS example_constants) (cloud provisioned)) =
       Inl EntityAlreadyExistsException"
    by (simp add: ref_defs example_defs)
  have trust:
    "create_assume_role_doc
       (Some [''arn:aws:iam::111111111111:user/AwsDataMesh/DataMeshConsumer'',
              ''arn:aws:iam::'' @ ''111111111111'' @ '':root'']) None None = Inr example_trust"
    by (simp add: create_assume_role_doc_def example_trust_def)
  have role:
    "fst (create_role ?c (DATA_MESH_IAM_PATH example_constants) ''DataMeshConsumer''
            (Dumps example_trust) ''role description'' (DEFAULT_TAGS example_constants)
            (cloud provisioned)) = Inl EntityAlreadyExistsException"
    by (simp add: ref_defs example_defs)
  note steps =
    conflict_recovery_by_step
      [where h = example_host and K = example_constants and c = ?c and w = provisioned
         and policy_template = "''consumer_policy.pystache''" and config = None
         and rendered = "''{}''" and policy_name = "''DataMeshConsumerPolicy''"
         and policy_desc = "''policy description''" and role_name = "''DataMeshConsumer''"
         and account_id = "''111111111111''" and assume_name = "''AssumeDataMeshConsumer''"
         and role_arn = "''arn:aws:iam::111111111111:role/AwsDataMesh/DataMeshConsumer''"
         and user_arn = "''arn:aws:iam::111111111111:user/AwsDataMesh/DataMeshConsumer''"
         and additional = None and trust = example_trust and role_desc = "''role description''"]
  show ?thesis
    using steps rendered policy user grp assumable trust role
    by (simp add: ref_defs example_constants_def provisioned_def example_assume_def arn_of_def)
qed

section \<open>The trust document of the role\<close>















section \<open>Running the provisioning twice\<close>



subsection \<open>The reference service loses nothing\<close>

lemma kept_refl: "kept s s"
  by (simp add: kept_def)

lemma kept_trans: "kept s s' \<Longrightarrow> kept s' s'' \<Longrightarrow> kept s s''"
  unfolding kept_def by blast

lemma map_of_append_keep: "map_of xs n = Some r \<Longrightarrow> map_of (xs @ ys) n = Some r"
  by (simp add: map_add_Some_iff)

lemma kept_ref_ops:
  "kept s (snd (ref_get_role n s))"
  "kept s (snd (ref_create_policy acct pn path doc desc tg s))"
  "kept s (snd (ref_create_user path u tg s))"
  "kept s (snd (ref_create_group path g s))"
  "kept s (snd (ref_add_user_to_group g u s))"
  "kept s (snd (ref_create_role acct path n doc desc tg s))"
  "kept s (snd (ref_attach_role_policy n a s))"
  "kept s (snd (ref_attach_group_policy g a s))"
  by (auto simp: kept_def ref_get_role_def ref_create_policy_def ref_create_user_def
        ref_create_group_def ref_add_user_to_group_def ref_create_role_def
        ref_attach_role_policy_def ref_attach_group_policy_def policy_arns_def
        map_of_append_keep
        split: option.splits document.splits)

lemma keepsD: "keeps m \<Longrightarrow> m w = (r, w') \<Longrightarrow> kept (cloud w) (cloud w')"
  unfolding keeps_def by (metis snd_conv)

lemma keeps_invoke: "(\<And>s. kept s (snd (f s))) \<Longrightarrow> keeps (invoke ev f)"
  by (simp add: keeps_def invoke_fst_snd)

lemma keeps_return: "keeps (return a)"
  by (simp add: keeps_def return_def kept_refl)

lemma keeps_Pair: "keeps (Pair r)"
  by (simp add: keeps_def kept_refl)


lemma keeps_except:
  assumes "keeps body" and "keeps handler"
  shows "keeps (except_already_exists body handler)"
  unfolding keeps_def
proof
  fix w
  obtain r w1 where mw: "body w = (r, w1)" by (cases "body w")
  have k1: "kept (cloud w) (cloud w1)" using keepsD [OF assms(1) mw] .
  have k2: "kept (cloud w1) (cloud (snd (handler w1)))"
    using assms(2) unfolding keeps_def by blast
  show "kept (cloud w) (cloud (snd (except_already_exists body handler w)))"
    using mw k1 k2 by (cases r) (auto simp: except_already_exists_def intro: kept_trans)
qed

lemma keeps_policy: "keeps (configure_iam_policy K h (ref_iam acct) pn pd pt a cfg)"
  unfolding configure_iam_policy_def iam_create_policy_def
  by (cases "generate_policy h pt cfg")
     (auto intro!: keeps_except keeps_invoke keeps_return keeps_Pair
           simp: ref_iam_def kept_ref_ops)








subsection \<open>What each step has established when it returns\<close>







subsection \<open>A run on an account that holds everything\<close>




end
